theory Spec2Isabelle
  imports Complex_Main "HOL-Library.Multiset" "HOL-Library.Char_ord" "HOL-Library.List_Lexorder"
begin

section \<open>Duty events as loaded by pandas\<close>

text \<open>
  A row of the data frame built by \<^verbatim>\<open>pd.read_csv(..., names=['ID', 'Name', 'Status', 'DateTime'])\<close>
  followed by \<^verbatim>\<open>pd.to_datetime\<close>. The status stays the string read from the file: no
  source file converts or validates it. A timestamp is a count of seconds since the
  epoch (the input format \<^verbatim>\<open>2024-01-01 08:00:00\<close> has whole seconds). Every cell of a row
  is present and the name is text: a missing cell, which pandas reads as \<^verbatim>\<open>NaN\<close> or \<^verbatim>\<open>NaT\<close>,
  and a name column that pandas reads as numbers are outside this type.
\<close>

record row =
  ID :: int
  Name :: string
  Status :: string
  DateTime :: int

text \<open>
  The columns \<^verbatim>\<open>df['Date'] = df['DateTime'].dt.date\<close> and
  \<^verbatim>\<open>df['Time'] = df['DateTime'].dt.time\<close> are computed once from \<^verbatim>\<open>DateTime\<close> and never
  assigned again, so they are functions of the row: the day number and the second of the day.
\<close>

definition Date :: "row \<Rightarrow> int" where
  "Date r = DateTime r div 86400"

definition Time :: "row \<Rightarrow> int" where
  "Time r = DateTime r mod 86400"

subsection \<open>The pandas and Python operations the source uses\<close>

text \<open>
  A boolean mask \<^verbatim>\<open>df[df[c] == v]\<close> is \<open>filter\<close>, \<^verbatim>\<open>.empty\<close> is \<open>= []\<close>, \<^verbatim>\<open>.iloc[0]\<close> and
  \<^verbatim>\<open>.iloc[-1]\<close> are \<open>hd\<close> and \<open>last\<close> (the source reads them only from frames it found
  non-empty), \<^verbatim>\<open>sorted(...)\<close> is \<open>sort\<close>, and \<^verbatim>\<open>sort_values(c)\<close> is \<open>sort_key c\<close>. The latter
  keeps rows with equal keys in their order, which pandas does not promise; what the
  source reads from a sorted frame, the timestamp of its first or last row, is the same
  for every sorted arrangement (\<open>first_last_of_any_sorting\<close> below).

  \<^verbatim>\<open>Series.unique()\<close>: the distinct values in order of first appearance.
\<close>

definition unique :: "'a list \<Rightarrow> 'a list" where
  "unique xs = rev (remdups (rev xs))"

definition nunique :: "'a list \<Rightarrow> nat" where
  "nunique xs = length (unique xs)"

subsection \<open>Double precision\<close>

text \<open>
  The source computes \<^verbatim>\<open>hours = duration.total_seconds() / 3600\<close> in IEEE 754 double
  precision. A double is the rational number it stands for. \<open>to_double x\<close> is the double
  nearest to \<open>x\<close>, a tie going to the even mantissa: the correctly rounded result of an
  operation whose exact result is \<open>x\<close>. The mantissa has 53 bits; overflow and subnormal
  numbers are left out, the hours of a day being far from both. \<open>ilog2 x\<close> is the exponent
  of a positive \<open>x\<close>, the integer \<open>k\<close> with \<open>2\<^sup>k \<le> x < 2\<^sup>k\<^sup>+\<^sup>1\<close> (\<open>ilog2_bounds\<close> below).
\<close>

definition round_half_even :: "rat \<Rightarrow> int" where
  "round_half_even x =
     (let f = \<lfloor>x\<rfloor>; d = x - of_int f
      in if d < 1 / 2 then f else if 1 / 2 < d then f + 1 else if even f then f else f + 1)"

fun bit_length :: "nat \<Rightarrow> nat" where
  "bit_length n = (if n = 0 then 0 else Suc (bit_length (n div 2)))"

declare bit_length.simps [simp del]

definition pow2 :: "int \<Rightarrow> rat" where
  "pow2 e = (if 0 \<le> e then 2 ^ nat e else 1 / 2 ^ nat (- e))"

definition ilog2 :: "rat \<Rightarrow> int" where
  "ilog2 x =
     (if 1 \<le> x then int (bit_length (nat \<lfloor>x\<rfloor>)) - 1
      else - int (bit_length (nat (\<lceil>1 / x\<rceil> - 1))))"

definition to_double :: "rat \<Rightarrow> rat" where
  "to_double x =
     (if x = 0 then 0
      else (let e = ilog2 \<bar>x\<bar> - 52; m = round_half_even (\<bar>x\<bar> / pow2 e)
            in sgn x * of_int m * pow2 e))"

text \<open>
  Python's \<^verbatim>\<open>round(x, ndigits)\<close> of a double \<open>x\<close> rounds the exact value of \<open>x\<close> to the nearest
  multiple of \<open>10\<^sup>-\<^sup>n\<close>, a tie going to the even neighbour, and returns the double nearest
  to that multiple. \<open>py_round\<close> is the multiple itself, which is what \<^verbatim>\<open>to_csv\<close> writes
  (the shortest decimal that reads back as the double).
\<close>

definition py_round :: "rat \<Rightarrow> nat \<Rightarrow> rat" where
  "py_round x ndigits = of_int (round_half_even (x * 10 ^ ndigits)) / 10 ^ ndigits"

section \<open>\<^verbatim>\<open>duty_analyzer.py\<close>: the work-hours report\<close>

record work_hours_row =
  wh_Name :: string
  wh_Date :: int
  Duty_On_Time :: int
  Duty_Off_Time :: int
  Work_Hours :: rat

text \<open>
  The body of the inner loop of report 4 of \<^verbatim>\<open>create_csv_reports\<close>, for one employee and
  one date of that employee; \<open>person_data\<close> is already sorted by \<^verbatim>\<open>DateTime\<close>.
\<close>

definition date_sessions :: "string \<Rightarrow> row list \<Rightarrow> int \<Rightarrow> work_hours_row list" where
  "date_sessions name person_data date =
     (let date_data = filter (\<lambda>r. Date r = date) person_data;
          duty_on = filter (\<lambda>r. Status r = ''DutyOn'') date_data;
          duty_off = filter (\<lambda>r. Status r = ''DutyOff'') date_data
      in if duty_on \<noteq> [] \<and> duty_off \<noteq> [] then
           (let first_on = DateTime (hd duty_on);
                last_off = DateTime (last duty_off);
                duration = last_off - first_on;
                hours = to_double (of_int duration / 3600)
            in [\<lparr>wh_Name = name, wh_Date = date,
                  Duty_On_Time = Time (hd duty_on),
                  Duty_Off_Time = Time (last duty_off),
                  Work_Hours = py_round hours 2\<rparr>])
         else [])"

definition person_sessions :: "row list \<Rightarrow> string \<Rightarrow> work_hours_row list" where
  "person_sessions df name =
     (let person_data = sort_key DateTime (filter (\<lambda>r. Name r = name) df)
      in concat (map (date_sessions name person_data) (sort (unique (map Date person_data)))))"

definition work_hours :: "row list \<Rightarrow> work_hours_row list" where
  "work_hours df = concat (map (person_sessions df) (sort (unique (map Name df))))"

text \<open>
  \<^verbatim>\<open>analyze_duty_schedule\<close> passes \<^verbatim>\<open>df.sort_values(['Name', 'Date', 'DateTime'])\<close> to the reports:
  a lexicographic sort, written as stable sorts from the least significant key.
\<close>

definition df_sorted :: "row list \<Rightarrow> row list" where
  "df_sorted df = sort_key Name (sort_key Date (sort_key DateTime df))"

subsection \<open>Reports 1 to 3 of \<^verbatim>\<open>create_csv_reports\<close>\<close>

type_synonym schedule_entry = "string \<times> int \<times> string \<times> int \<times> int"

definition person_schedule :: "row list \<Rightarrow> schedule_entry list" where
  "person_schedule df =
     concat (map (\<lambda>name.
         map (\<lambda>record. (Name record, Date record, Status record, Time record, DateTime record))
           (sort_key DateTime (filter (\<lambda>r. Name r = name) df)))
       (sort (unique (map Name df))))"

type_synonym date_entry = "int \<times> string \<times> string \<times> int \<times> int"

definition date_schedule :: "row list \<Rightarrow> date_entry list" where
  "date_schedule df =
     concat (map (\<lambda>date.
         map (\<lambda>record. (Date record, Name record, Status record, Time record, DateTime record))
           (sort_key DateTime (filter (\<lambda>r. Date r = date) df)))
       (sort (unique (map Date df))))"

record daily_summary_row =
  ds_Date :: int
  Total_DutyOn :: nat
  Total_DutyOff :: nat
  Unique_Employees :: nat

definition daily_summary :: "row list \<Rightarrow> daily_summary_row list" where
  "daily_summary df =
     map (\<lambda>date.
         (let date_data = filter (\<lambda>r. Date r = date) df;
              duty_on_count = length (filter (\<lambda>r. Status r = ''DutyOn'') date_data);
              duty_off_count = length (filter (\<lambda>r. Status r = ''DutyOff'') date_data);
              unique_employees = nunique (map Name date_data)
          in \<lparr>ds_Date = date, Total_DutyOn = duty_on_count, Total_DutyOff = duty_off_count,
               Unique_Employees = unique_employees\<rparr>))
       (sort (unique (map Date df)))"

text \<open>
  The four files \<^verbatim>\<open>create_csv_reports\<close> writes. The last one is written only under
  \<^verbatim>\<open>if work_hours:\<close>, so it is absent when no session was found.
\<close>

record reports =
  duty_schedule_by_person :: "schedule_entry list"
  duty_schedule_by_date :: "date_entry list"
  daily_duty_summary :: "daily_summary_row list"
  employee_work_hours :: "work_hours_row list option"

definition create_csv_reports :: "row list \<Rightarrow> reports" where
  "create_csv_reports df =
     \<lparr>duty_schedule_by_person = person_schedule df,
      duty_schedule_by_date = date_schedule df,
      daily_duty_summary = daily_summary df,
      employee_work_hours = (if work_hours df \<noteq> [] then Some (work_hours df) else None)\<rparr>"

section \<open>Loading\<close>

text \<open>
  The fields of one line of an input file, as \<^verbatim>\<open>pd.read_csv\<close> delivers them before any
  conversion.
\<close>

record raw_row =
  raw_ID :: int
  raw_Name :: string
  raw_Status :: string
  raw_DateTime :: string

datatype py_error = FileNotFoundError | DateParseError | AttributeError

text \<open>
  \<^verbatim>\<open>df['DateTime'] = pd.to_datetime(df['DateTime'])\<close>. Parsing belongs to pandas and is a
  parameter: \<open>to_datetime column cell\<close> is the timestamp pandas reads from a cell of the given
  column (it takes the format from the column), or \<open>None\<close> for a cell it does not accept
  there; one such cell makes the whole conversion raise. Nothing else of a row is looked
  at. A missing timestamp cell, which pandas turns into \<^verbatim>\<open>NaT\<close> without raising, is not a
  cell of this model, and what \<^verbatim>\<open>pd.read_csv\<close> itself does with a file it cannot read is
  outside it.
\<close>

fun convert_rows :: "(string \<Rightarrow> int option) \<Rightarrow> raw_row list \<Rightarrow> py_error + row list" where
  "convert_rows parse [] = Inr []"
| "convert_rows parse (r # rs) =
     (case parse (raw_DateTime r) of
        None \<Rightarrow> Inl DateParseError
      | Some t \<Rightarrow>
          (case convert_rows parse rs of
             Inl e \<Rightarrow> Inl e
           | Inr df \<Rightarrow>
               Inr (\<lparr>ID = raw_ID r, Name = raw_Name r, Status = raw_Status r, DateTime = t\<rparr> # df)))"

definition convert_DateTime ::
  "(string list \<Rightarrow> string \<Rightarrow> int option) \<Rightarrow> raw_row list \<Rightarrow> py_error + row list" where
  "convert_DateTime to_datetime raws = convert_rows (to_datetime (map raw_DateTime raws)) raws"

text \<open>
  Lines 11 to 16 of \<^verbatim>\<open>analyze_duty_schedule\<close> in \<^verbatim>\<open>duty_analyzer.py\<close>, which read the file
  and convert its timestamps, for a file that holds the given lines. The function has no
  \<^verbatim>\<open>try\<close>: an exception of the conversion leaves it.
\<close>

definition analyze_duty_schedule_load ::
  "(string list \<Rightarrow> string \<Rightarrow> int option) \<Rightarrow> raw_row list \<Rightarrow> py_error + row list" where
  "analyze_duty_schedule_load to_datetime csv_file = convert_DateTime to_datetime csv_file"

text \<open>
  The loading code at the head of \<^verbatim>\<open>create_html_dashboard\<close>, which is also the body of the
  \<^verbatim>\<open>try\<close> of \<^verbatim>\<open>load_data\<close> in \<^verbatim>\<open>employee_lookup.py\<close>. \<open>glob\<close> are the files matching
  \<^verbatim>\<open>'Untitled spreadsheet - Sheet*.csv'\<close>, each a name with its lines.
\<close>

definition load_csv_files ::
  "(string list \<Rightarrow> string \<Rightarrow> int option) \<Rightarrow> (string \<times> raw_row list) list
     \<Rightarrow> py_error + row list" where
  "load_csv_files to_datetime glob =
     (let files = sort_key fst glob
      in if files = [] then Inl FileNotFoundError
         else convert_DateTime to_datetime (concat (map snd files)))"

text \<open>
  \<^verbatim>\<open>load_data\<close> of \<^verbatim>\<open>employee_lookup.py\<close> wraps the same code in
  \<^verbatim>\<open>try: ... except Exception as e: st.error(...); return None\<close>: it always returns, with the
  data frame or \<open>None\<close>, and the second component is what it showed through \<^verbatim>\<open>st.error\<close>.
\<close>

definition load_data ::
  "(string list \<Rightarrow> string \<Rightarrow> int option) \<Rightarrow> (string \<times> raw_row list) list
     \<Rightarrow> py_error + (row list option \<times> py_error list)" where
  "load_data to_datetime glob =
     (case load_csv_files to_datetime glob of
        Inl e \<Rightarrow> Inr (None, [e])
      | Inr df \<Rightarrow> Inr (Some df, []))"

section \<open>\<^verbatim>\<open>dashboard.py\<close>\<close>

subsection \<open>Formatting\<close>






subsection \<open>Key metrics\<close>

definition total_records :: "row list \<Rightarrow> nat" where
  "total_records filtered_df = length filtered_df"

definition unique_employees :: "row list \<Rightarrow> nat" where
  "unique_employees filtered_df = nunique (map Name filtered_df)"

definition duty_on_count :: "row list \<Rightarrow> nat" where
  "duty_on_count filtered_df = length (filter (\<lambda>r. Status r = ''DutyOn'') filtered_df)"

definition duty_off_count :: "row list \<Rightarrow> nat" where
  "duty_off_count filtered_df = length (filter (\<lambda>r. Status r = ''DutyOff'') filtered_df)"

subsection \<open>The detailed schedule of the selected employee\<close>




subsection \<open>Summary tables\<close>

text \<open>
  \<^verbatim>\<open>frame.groupby(key).size()\<close>: the keys in ascending order, each with its number of rows
  (every row has its key here, no cell being missing).
  \<^verbatim>\<open>column.map(series).fillna(0)\<close> looks a key up and takes 0 when it is missing.
\<close>

definition groupby_size :: "(row \<Rightarrow> 'k::linorder) \<Rightarrow> row list \<Rightarrow> ('k \<times> nat) list" where
  "groupby_size key df =
     map (\<lambda>k. (k, length (filter (\<lambda>r. key r = k) df))) (sort (unique (map key df)))"

definition map_fillna0 :: "('k \<times> nat) list \<Rightarrow> 'k \<Rightarrow> nat" where
  "map_fillna0 series k = (case map_of series k of None \<Rightarrow> 0 | Some c \<Rightarrow> c)"

text \<open>
  \<^verbatim>\<open>filtered_df.groupby([k1, k2]).size().reset_index(name='Count')\<close>: the pairs of keys that
  occur, in lexicographic order, each with its number of rows (pandas leaves out rows with
  a missing key; there are none here). The charts of daily and of hourly activity are
  drawn from it, with \<^verbatim>\<open>df['Hour'] = df['DateTime'].dt.hour\<close>.
\<close>

definition groupby2_size ::
  "(row \<Rightarrow> 'a::linorder) \<Rightarrow> (row \<Rightarrow> 'b::linorder) \<Rightarrow> row list \<Rightarrow> ('a \<times> 'b \<times> nat) list" where
  "groupby2_size key1 key2 df =
     concat (map (\<lambda>a.
         (let g = filter (\<lambda>r. key1 r = a) df
          in map (\<lambda>b. (a, b, length (filter (\<lambda>r. key2 r = b) g))) (sort (unique (map key2 g)))))
       (sort (unique (map key1 df))))"

definition Hour :: "row \<Rightarrow> int" where
  "Hour r = Time r div 3600"

definition daily_stats :: "row list \<Rightarrow> (int \<times> string \<times> nat) list" where
  "daily_stats filtered_df = groupby2_size Date Status filtered_df"

definition hourly_stats :: "row list \<Rightarrow> (int \<times> string \<times> nat) list" where
  "hourly_stats filtered_df = groupby2_size Hour Status filtered_df"

text \<open>
  The daily summary tab, lines 422 to 434. \<^verbatim>\<open>'Status': ['count']\<close> counts the rows of the date
  whose status cell is present, which is every row of the date here.
\<close>

record dash_daily_row =
  dd_Date :: int
  dd_Unique_Employees :: nat
  dd_Total_Records :: nat
  dd_Duty_On_Count :: nat
  dd_Duty_Off_Count :: nat

definition dash_daily_summary :: "row list \<Rightarrow> dash_daily_row list" where
  "dash_daily_summary filtered_df =
     (let duty_on_daily = groupby_size Date (filter (\<lambda>r. Status r = ''DutyOn'') filtered_df);
          duty_off_daily = groupby_size Date (filter (\<lambda>r. Status r = ''DutyOff'') filtered_df)
      in map (\<lambda>date.
             (let g = filter (\<lambda>r. Date r = date) filtered_df
              in \<lparr>dd_Date = date, dd_Unique_Employees = nunique (map Name g),
                   dd_Total_Records = length g,
                   dd_Duty_On_Count = map_fillna0 duty_on_daily date,
                   dd_Duty_Off_Count = map_fillna0 duty_off_daily date\<rparr>))
           (sort (unique (map Date filtered_df))))"

record employee_summary_row =
  es_Name :: string
  es_Unique_Days :: nat
  es_Total_Records :: nat
  es_First_Activity :: int
  es_Last_Activity :: int
  es_Duty_On_Count :: nat
  es_Duty_Off_Count :: nat

definition employee_summary :: "row list \<Rightarrow> employee_summary_row list" where
  "employee_summary filtered_df =
     (let duty_on_emp = groupby_size Name (filter (\<lambda>r. Status r = ''DutyOn'') filtered_df);
          duty_off_emp = groupby_size Name (filter (\<lambda>r. Status r = ''DutyOff'') filtered_df)
      in map (\<lambda>name.
             (let g = filter (\<lambda>r. Name r = name) filtered_df
              in \<lparr>es_Name = name, es_Unique_Days = nunique (map Date g),
                   es_Total_Records = length g,
                   es_First_Activity = Min (DateTime ` set g),
                   es_Last_Activity = Max (DateTime ` set g),
                   es_Duty_On_Count = map_fillna0 duty_on_emp name,
                   es_Duty_Off_Count = map_fillna0 duty_off_emp name\<rparr>))
           (sort (unique (map Name filtered_df))))"

subsection \<open>The filters and the order of \<^verbatim>\<open>main\<close>\<close>

text \<open>
  Lines 114 to 131 of \<^verbatim>\<open>main\<close>: the date range (applied when two dates are chosen), the
  employees (applied unless \<^verbatim>\<open>'All'\<close> is among them or none is chosen) and the status.
\<close>

definition apply_filters :: "row list \<Rightarrow> int list \<Rightarrow> string list \<Rightarrow> string \<Rightarrow> row list" where
  "apply_filters df date_range selected_employees status_filter =
     (let by_date =
            (if length date_range = 2 then
               filter (\<lambda>r. date_range ! 0 \<le> Date r \<and> Date r \<le> date_range ! 1) df
             else df);
          by_employee =
            (if ''All'' \<notin> set selected_employees \<and> selected_employees \<noteq> [] then
               filter (\<lambda>r. Name r \<in> set selected_employees) by_date
             else by_date)
      in if status_filter \<noteq> ''All'' then
           filter (\<lambda>r. Status r = status_filter) by_employee
         else by_employee)"

text \<open>
  Line 155, \<^verbatim>\<open>(filtered_df['Date'].max() - filtered_df['Date'].min()).days + 1\<close>. The column
  holds \<^verbatim>\<open>datetime.date\<close> objects; on a frame without rows \<^verbatim>\<open>max()\<close> and \<^verbatim>\<open>min()\<close> return the
  float \<^verbatim>\<open>nan\<close>, their difference is a float, and \<^verbatim>\<open>.days\<close> raises \<^verbatim>\<open>AttributeError\<close>.
\<close>

definition date_range_days :: "row list \<Rightarrow> py_error + int" where
  "date_range_days filtered =
     (if filtered = [] then Inl AttributeError
      else Inr (Max (Date ` set filtered) - Min (Date ` set filtered) + 1))"

text \<open>
  What \<^verbatim>\<open>main\<close> computes from the loaded frame, in its order: the filters, the key metrics
  of lines 133 to 156, then the tables of the charts and of the summary tabs. Nothing
  catches an exception of the key metrics, so the tables are computed only when the key
  metrics were.
\<close>

record dashboard_output =
  out_total_records :: nat
  out_unique_employees :: nat
  out_duty_on_count :: nat
  out_duty_off_count :: nat
  out_date_range_days :: int
  out_daily_stats :: "(int \<times> string \<times> nat) list"
  out_hourly_stats :: "(int \<times> string \<times> nat) list"
  out_daily_summary :: "dash_daily_row list"
  out_employee_summary :: "employee_summary_row list"

definition dashboard_main ::
  "row list \<Rightarrow> int list \<Rightarrow> string list \<Rightarrow> string \<Rightarrow> py_error + dashboard_output" where
  "dashboard_main df date_range selected_employees status_filter =
     (let filtered = apply_filters df date_range selected_employees status_filter
      in case date_range_days filtered of
           Inl e \<Rightarrow> Inl e
         | Inr days \<Rightarrow>
             Inr \<lparr>out_total_records = total_records filtered,
                  out_unique_employees = unique_employees filtered,
                  out_duty_on_count = duty_on_count filtered,
                  out_duty_off_count = duty_off_count filtered,
                  out_date_range_days = days,
                  out_daily_stats = daily_stats filtered,
                  out_hourly_stats = hourly_stats filtered,
                  out_daily_summary = dash_daily_summary filtered,
                  out_employee_summary = employee_summary filtered\<rparr>)"

section \<open>The events and the session of one employee on one date\<close>

text \<open>
  The rows of a \<open>(name, date)\<close> group that carry a given status, and the row a group
  yields according to the specification: one row built from the earliest \<^verbatim>\<open>DutyOn\<close> and the
  latest \<^verbatim>\<open>DutyOff\<close> timestamp when both exist, nothing otherwise.
\<close>

definition events :: "row list \<Rightarrow> string \<Rightarrow> int \<Rightarrow> string \<Rightarrow> row list" where
  "events df name date status =
     filter (\<lambda>r. Name r = name \<and> Date r = date \<and> Status r = status) df"

definition group_session :: "row list \<Rightarrow> string \<Rightarrow> int \<Rightarrow> work_hours_row list" where
  "group_session df name date =
     (let ons = DateTime ` set (events df name date ''DutyOn'');
          offs = DateTime ` set (events df name date ''DutyOff'')
      in if ons \<noteq> {} \<and> offs \<noteq> {} then
           [\<lparr>wh_Name = name, wh_Date = date,
             Duty_On_Time = Min ons mod 86400,
             Duty_Off_Time = Max offs mod 86400,
             Work_Hours = py_round (to_double (of_int (Max offs - Min ons) / 3600)) 2\<rparr>]
         else [])"

text \<open>
  The duration of a group as the specification words it: the latest \<^verbatim>\<open>DutyOff\<close> timestamp
  minus the earliest \<^verbatim>\<open>DutyOn\<close> timestamp, divided by 3600.
\<close>

definition exact_hours :: "row list \<Rightarrow> string \<Rightarrow> int \<Rightarrow> rat" where
  "exact_hours df name date =
     of_int (Max (DateTime ` set (events df name date ''DutyOff''))
             - Min (DateTime ` set (events df name date ''DutyOn''))) / 3600"

text \<open>Cutting a number of hours after its second decimal place, as the specification words it.\<close>

definition truncated_2dp :: "rat \<Rightarrow> rat" where
  "truncated_2dp x = (if 0 \<le> x then of_int \<lfloor>x * 100\<rfloor> / 100 else of_int \<lceil>x * 100\<rceil> / 100)"

subsection \<open>Sample rows\<close>

text \<open>
  A row from its four fields, and a timestamp from a day number and a time of day; day
  19723 is 2024-01-01.
\<close>

definition event :: "int \<Rightarrow> string \<Rightarrow> string \<Rightarrow> int \<Rightarrow> row" where
  "event i n s t = \<lparr>ID = i, Name = n, Status = s, DateTime = t\<rparr>"

definition at_time :: "int \<Rightarrow> int \<Rightarrow> int \<Rightarrow> int \<Rightarrow> int" where
  "at_time day h m s = day * 86400 + h * 3600 + m * 60 + s"

section \<open>Auxiliary facts\<close>

lemma set_unique: "set (unique xs) = set xs"
  by (simp add: unique_def)

lemma distinct_sort_unique: "distinct (sort (unique xs))"
  by (simp add: unique_def)

lemma set_sort_unique: "set (sort (unique xs)) = set xs"
  by (simp add: unique_def)

lemma sorted_hd_Min: "sorted xs \<Longrightarrow> xs \<noteq> [] \<Longrightarrow> hd xs = Min (set xs)"
  by (cases xs) (auto intro!: Min_eqI[symmetric])

lemma sorted_last_Max:
  assumes "sorted xs" "xs \<noteq> []"
  shows "last xs = Max (set xs)"
proof -
  obtain ys y where xs: "xs = ys @ [y]"
    using assms(2) by (cases xs rule: rev_cases) auto
  have "\<forall>x\<in>set ys. x \<le> y"
    using assms(1) unfolding xs by (simp add: sorted_append)
  then have "Max (set xs) = y"
    unfolding xs by (intro Max_eqI) auto
  then show ?thesis by (simp add: xs)
qed

lemma sort_key_eq_Nil: "sort_key f xs = [] \<longleftrightarrow> xs = []"
  by (metis length_sort length_0_conv)

lemma hd_sort_key_Min:
  assumes "xs \<noteq> []"
  shows "f (hd (sort_key f xs)) = Min (f ` set xs)"
proof -
  have ne: "sort_key f xs \<noteq> []" using assms by (simp add: sort_key_eq_Nil)
  have "hd (map f (sort_key f xs)) = Min (set (map f (sort_key f xs)))"
    using ne by (intro sorted_hd_Min) simp_all
  then show ?thesis using ne by (simp add: hd_map)
qed

lemma last_sort_key_Max:
  assumes "xs \<noteq> []"
  shows "f (last (sort_key f xs)) = Max (f ` set xs)"
proof -
  have ne: "sort_key f xs \<noteq> []" using assms by (simp add: sort_key_eq_Nil)
  have "last (map f (sort_key f xs)) = Max (set (map f (sort_key f xs)))"
    using ne by (intro sorted_last_Max) simp_all
  then show ?thesis using ne by (simp add: last_map)
qed

lemma first_last_of_any_sorting:
  assumes "set ys = set xs" and "sorted (map f ys)" and "ys \<noteq> []"
  shows "f (hd ys) = Min (f ` set xs) \<and> f (last ys) = Max (f ` set xs)"
proof -
  have ne: "map f ys \<noteq> []" using assms(3) by simp
  have "hd (map f ys) = Min (set (map f ys))"
    using assms(2) ne by (rule sorted_hd_Min)
  moreover have "last (map f ys) = Max (set (map f ys))"
    using assms(2) ne by (rule sorted_last_Max)
  ultimately show ?thesis
    using assms(1,3) by (simp add: hd_map last_map)
qed

subsection \<open>The work-hours report, group by group\<close>

lemma date_sessions_group:
  "date_sessions n (sort_key DateTime (filter (\<lambda>r. Name r = n) df)) d = group_session df n d"
proof -
  have on: "filter (\<lambda>r. Status r = st) (filter (\<lambda>r. Date r = d)
              (sort_key DateTime (filter (\<lambda>r. Name r = n) df)))
            = sort_key DateTime (events df n d st)" for st
    by (simp add: filter_sort events_def conj_commute conj_left_commute)
  show ?thesis
    unfolding date_sessions_def group_session_def Let_def on Time_def
    by (simp add: sort_key_eq_Nil hd_sort_key_Min last_sort_key_Max)
qed

lemma date_sessions_group_fun:
  "date_sessions n (sort_key DateTime (filter (\<lambda>r. Name r = n) df)) = group_session df n"
  by (rule ext) (rule date_sessions_group)

lemma person_sessions_groups:
  "person_sessions df n =
     concat (map (group_session df n) (sort (unique (map Date (filter (\<lambda>r. Name r = n) df)))))"
proof -
  have "sort (unique (map Date (sort_key DateTime xs))) = sort (unique (map Date xs))" for xs
    by (intro sorted_distinct_set_unique) (simp_all add: unique_def)
  then show ?thesis
    by (simp add: person_sessions_def Let_def date_sessions_group_fun)
qed

lemma work_hours_groups:
  "work_hours df =
     concat (map (\<lambda>n. concat (map (group_session df n)
        (sort (unique (map Date (filter (\<lambda>r. Name r = n) df))))))
      (sort (unique (map Name df))))"
proof -
  have "person_sessions df = (\<lambda>n. concat (map (group_session df n)
        (sort (unique (map Date (filter (\<lambda>r. Name r = n) df))))))"
    by (intro ext) (rule person_sessions_groups)
  then show ?thesis
    by (simp add: work_hours_def)
qed

lemma group_session_fields:
  "s \<in> set (group_session df n d) \<Longrightarrow> wh_Name s = n \<and> wh_Date s = d"
  by (auto simp: group_session_def Let_def split: if_splits)

lemma concat_map_if_eq:
  "distinct xs \<Longrightarrow> concat (map (\<lambda>x. if x = a then ys else []) xs) = (if a \<in> set xs then ys else [])"
  by (induction xs) auto

lemma group_session_nonempty:
  assumes "group_session df n d \<noteq> []"
  shows "n \<in> Name ` set df" and "d \<in> Date ` {r \<in> set df. Name r = n}"
  using assms by (auto simp: group_session_def Let_def events_def split: if_splits)

lemma filter_concat_map:
  "filter P (concat (map f xs)) = concat (map (\<lambda>x. filter P (f x)) xs)"
  by (simp add: filter_concat comp_def)

lemma filter_work_hours:
  "filter (\<lambda>s. wh_Name s = n \<and> wh_Date s = d) (work_hours df) = group_session df n d"
proof -
  let ?P = "\<lambda>s. wh_Name s = n \<and> wh_Date s = d"
  let ?dates = "\<lambda>n. sort (unique (map Date (filter (\<lambda>r. Name r = n) df)))"
  have one: "filter ?P (group_session df n' d') =
      (if d' = d then (if n' = n then group_session df n d else []) else [])" for n' d'
    by (auto simp: filter_empty_conv dest: group_session_fields intro!: filter_True)
  have inner: "filter ?P (concat (map (group_session df n') (?dates n'))) =
      (if n' = n then (if d \<in> set (?dates n) then group_session df n d else []) else [])" for n'
  proof (cases "n' = n")
    case True
    then show ?thesis
      by (simp only: filter_concat map_map comp_def one if_True
            concat_map_if_eq[OF distinct_sort_unique]) simp
  next
    case False
    then show ?thesis
      by (simp only: filter_concat map_map comp_def one if_False if_cancel)
        (simp del: set_sort)
  qed
  have "filter ?P (work_hours df) =
      (if n \<in> set (sort (unique (map Name df))) then
         (if d \<in> set (?dates n) then group_session df n d else []) else [])"
    unfolding work_hours_groups
    by (simp only: filter_concat_map[where f = "\<lambda>n. concat (map (group_session df n) (?dates n))"]
          inner concat_map_if_eq[OF distinct_sort_unique])
  also have "\<dots> = group_session df n d"
  proof (cases "group_session df n d = []")
    case True
    then show ?thesis by simp
  next
    case False
    from group_session_nonempty[OF False] show ?thesis
      by (simp add: set_unique)
  qed
  finally show ?thesis .
qed

subsection \<open>Rounding\<close>

lemma floor_rat_numeral: "\<lfloor>numeral a / numeral b :: rat\<rfloor> = numeral a div numeral b"
  using floor_divide_of_int_eq[of "numeral a" "numeral b", where ?'a = rat] by simp

lemma ceiling_rat_numeral: "\<lceil>numeral a / numeral b :: rat\<rceil> = - ((- numeral a) div numeral b)"
  using ceiling_divide_eq_div[of "numeral a" "numeral b", where ?'a = rat] by simp

lemmas eval_double =
  py_round_def to_double_def ilog2_def pow2_def round_half_even_def bit_length.simps
  floor_rat_numeral ceiling_rat_numeral Let_def

lemma round_half_even_near: "\<bar>of_int (round_half_even x) - x\<bar> \<le> 1 / 2"
proof -
  have "of_int \<lfloor>x\<rfloor> \<le> x" and "x < of_int \<lfloor>x\<rfloor> + 1"
    by linarith+
  then show ?thesis
    unfolding round_half_even_def Let_def by (auto simp: abs_le_iff)
qed

lemma round_half_even_nonpos: "x \<le> 0 \<Longrightarrow> round_half_even x \<le> 0"
proof -
  assume x: "x \<le> 0"
  show ?thesis
  proof (cases "x = 0")
    case True
    then show ?thesis by (simp add: round_half_even_def)
  next
    case False
    with x have "\<lfloor>x\<rfloor> \<le> -1" by linarith
    then show ?thesis
      unfolding round_half_even_def Let_def by auto
  qed
qed

lemma round_half_even_nonneg: "0 \<le> x \<Longrightarrow> 0 \<le> round_half_even x"
proof -
  assume "0 \<le> x"
  then have "0 \<le> \<lfloor>x\<rfloor>" by simp
  then show ?thesis
    unfolding round_half_even_def Let_def by auto
qed

lemma pow2_pos: "0 < pow2 e"
  by (simp add: pow2_def)

lemma pow2_le: "e \<le> - 48 \<Longrightarrow> pow2 e \<le> 1 / 2 ^ 48"
proof -
  assume e: "e \<le> - 48"
  then have "(2::rat) ^ 48 \<le> 2 ^ nat (- e)"
    by (intro power_increasing) auto
  with e show ?thesis
    by (simp add: pow2_def frac_le)
qed

lemma bit_length_le: "n < 2 ^ k \<Longrightarrow> bit_length n \<le> k"
proof (induction k arbitrary: n)
  case 0
  then show ?case by (simp add: bit_length.simps)
next
  case (Suc k)
  from Suc.prems have "n div 2 < 2 ^ k" by simp
  from Suc.IH[OF this] show ?case
    by (subst bit_length.simps) simp
qed

lemma ilog2_le: "x < 32 \<Longrightarrow> ilog2 x \<le> 4"
proof -
  assume x: "x < 32"
  show ?thesis
  proof (cases "1 \<le> x")
    case True
    from x have "\<lfloor>x\<rfloor> < 32" by linarith
    then have "nat \<lfloor>x\<rfloor> < 32" by linarith
    then have "nat \<lfloor>x\<rfloor> < 2 ^ 5" by simp
    then have "bit_length (nat \<lfloor>x\<rfloor>) \<le> 5" by (rule bit_length_le)
    with True show ?thesis by (simp add: ilog2_def)
  next
    case False
    then show ?thesis by (simp add: ilog2_def)
  qed
qed

lemma to_double_error: "\<bar>to_double x - x\<bar> \<le> pow2 (ilog2 \<bar>x\<bar> - 52) / 2"
proof (cases "x = 0")
  case True
  then show ?thesis
    using pow2_pos[of "ilog2 \<bar>x\<bar> - 52"] by (simp add: to_double_def)
next
  case False
  define p where "p = pow2 (ilog2 \<bar>x\<bar> - 52)"
  define m where "m = round_half_even (\<bar>x\<bar> / p)"
  have p: "0 < p" unfolding p_def by (rule pow2_pos)
  have "\<bar>of_int m - \<bar>x\<bar> / p\<bar> \<le> 1 / 2"
    unfolding m_def by (rule round_half_even_near)
  then have "\<bar>of_int m - \<bar>x\<bar> / p\<bar> * p \<le> 1 / 2 * p"
    using p by (intro mult_right_mono) auto
  moreover have "(of_int m - \<bar>x\<bar> / p) * p = of_int m * p - \<bar>x\<bar>"
    using p by (simp add: field_simps)
  then have "\<bar>of_int m - \<bar>x\<bar> / p\<bar> * p = \<bar>of_int m * p - \<bar>x\<bar>\<bar>"
    using p by (metis abs_mult abs_of_pos)
  ultimately have near: "\<bar>of_int m * p - \<bar>x\<bar>\<bar> \<le> p / 2"
    by simp
  have td: "to_double x = sgn x * (of_int m * p)"
    using False by (simp add: to_double_def Let_def p_def m_def mult.assoc)
  have "to_double x - x = sgn x * (of_int m * p - \<bar>x\<bar>)"
    unfolding td by (simp add: right_diff_distrib sgn_mult_abs)
  then have "\<bar>to_double x - x\<bar> = \<bar>of_int m * p - \<bar>x\<bar>\<bar>"
    using False by (simp add: abs_mult abs_sgn_eq)
  with near show ?thesis
    by (simp add: p_def)
qed

lemma to_double_near: "\<bar>x\<bar> < 32 \<Longrightarrow> \<bar>to_double x - x\<bar> \<le> 1 / 2 ^ 49"
proof -
  assume "\<bar>x\<bar> < 32"
  then have "ilog2 \<bar>x\<bar> - 52 \<le> - 48"
    using ilog2_le[of "\<bar>x\<bar>"] by simp
  then have "pow2 (ilog2 \<bar>x\<bar> - 52) \<le> 1 / 2 ^ 48"
    by (rule pow2_le)
  with to_double_error[of x] show ?thesis
    by simp
qed

lemma to_double_sign: "x < 0 \<Longrightarrow> to_double x \<le> 0"
proof -
  assume x: "x < 0"
  have "0 \<le> \<bar>x\<bar> / pow2 (ilog2 \<bar>x\<bar> - 52)"
    using pow2_pos[of "ilog2 \<bar>x\<bar> - 52"] by simp
  then have "0 \<le> round_half_even (\<bar>x\<bar> / pow2 (ilog2 \<bar>x\<bar> - 52))"
    by (rule round_half_even_nonneg)
  then have "0 \<le> rat_of_int (round_half_even (\<bar>x\<bar> / pow2 (ilog2 \<bar>x\<bar> - 52))) * pow2 (ilog2 \<bar>x\<bar> - 52)"
    using pow2_pos[of "ilog2 \<bar>x\<bar> - 52"] by simp
  with x show ?thesis
    by (simp add: to_double_def Let_def mult.assoc)
qed

lemma py_round_to_double_nonpos: "x < 0 \<Longrightarrow> py_round (to_double x) 2 \<le> 0"
proof -
  assume "x < 0"
  then have "to_double x * 100 \<le> 0"
    using to_double_sign[of x] by (simp add: mult_nonpos_nonneg)
  then have "round_half_even (to_double x * 100) \<le> 0"
    by (rule round_half_even_nonpos)
  then show ?thesis
    unfolding py_round_def by (simp add: divide_nonpos_pos)
qed

lemma hours_rounding:
  assumes "\<bar>s\<bar> < (86400::int)"
  shows "\<bar>py_round (to_double (of_int s / 3600)) 2 - of_int s / 3600\<bar> \<le> 1 / 200"
proof -
  define x :: rat where "x = of_int s / 3600"
  define r where "r = round_half_even (to_double x * 100)"
  have "\<bar>x\<bar> < 32"
    using assms by (simp add: x_def abs_if field_simps split: if_splits)
  then have d: "\<bar>to_double x - x\<bar> \<le> 1 / 2 ^ 49"
    by (rule to_double_near)
  have n: "\<bar>of_int r - to_double x * 100\<bar> \<le> 1 / 2"
    unfolding r_def by (rule round_half_even_near)
  have "\<bar>of_int r - x * 100\<bar> \<le> 1 / 2 + 100 / 2 ^ 49"
    using d n by linarith
  then have "\<bar>rat_of_int (36 * r - s)\<bar> \<le> 18 + 3600 / 2 ^ 49"
    by (simp add: x_def abs_le_iff field_simps)
  also have "\<dots> < 19"
    by simp
  finally have "\<bar>rat_of_int (36 * r - s)\<bar> < rat_of_int 19"
    by simp
  then have "\<bar>36 * r - s\<bar> < 19"
    by (simp only: of_int_abs[symmetric] of_int_less_iff)
  then have "\<bar>36 * r - s\<bar> \<le> 18"
    by simp
  then have "rat_of_int \<bar>36 * r - s\<bar> \<le> rat_of_int 18"
    by (simp only: of_int_le_iff)
  then have "\<bar>rat_of_int (36 * r - s)\<bar> \<le> 18"
    by simp
  then have "\<bar>of_int r / 100 - x\<bar> \<le> 1 / 200"
    by (simp add: x_def abs_le_iff field_simps)
  then show ?thesis
    by (simp add: py_round_def r_def x_def)
qed


lemma bit_length_bounds:
  "0 < n \<Longrightarrow> 2 ^ (bit_length n - 1) \<le> n \<and> n < 2 ^ bit_length n"
proof (induction n rule: bit_length.induct)
  case (1 n)
  show ?case
  proof (cases "n div 2 = 0")
    case True
    with "1.prems" have "n = 1" by (simp add: div_eq_0_iff) 
    then show ?thesis
      by (simp add: bit_length.simps)
  next
    case False
    then have pos: "0 < n div 2" by simp
    from "1.prems" have n0: "n \<noteq> 0" by simp
    from "1.IH"[OF n0 pos]
    have lo: "2 ^ (bit_length (n div 2) - 1) \<le> n div 2"
      and hi: "n div 2 < 2 ^ bit_length (n div 2)" by auto
    have bl: "bit_length n = Suc (bit_length (n div 2))"
      using n0 by (subst bit_length.simps) simp
    have k: "0 < bit_length (n div 2)"
      using pos by (subst bit_length.simps) simp
    then have "(2::nat) ^ bit_length (n div 2) = 2 * 2 ^ (bit_length (n div 2) - 1)"
      by (cases "bit_length (n div 2)") auto
    with lo have "2 ^ bit_length (n div 2) \<le> n" by linarith
    moreover from hi have "n < 2 * 2 ^ bit_length (n div 2)" by linarith
    ultimately show ?thesis
      by (simp add: bl)
  qed
qed

lemma pow2_int: "pow2 (int k) = 2 ^ k"
  by (simp add: pow2_def)

lemma pow2_neg: "pow2 (- int k) = 1 / 2 ^ k"
  by (auto simp: pow2_def)

lemma ilog2_bounds:
  assumes "0 < x"
  shows "pow2 (ilog2 x) \<le> x \<and> x < pow2 (ilog2 x + 1)"
proof (cases "1 \<le> x")
  case True
  define n where "n = nat \<lfloor>x\<rfloor>"
  have n: "0 < n" and nx: "of_nat n \<le> x" and xn: "x < of_nat n + 1"
    using True unfolding n_def by (simp_all add: of_nat_nat) linarith+
  from bit_length_bounds[OF n]
  have lo: "2 ^ (bit_length n - 1) \<le> n" and hi: "n < 2 ^ bit_length n" by auto
  have k: "0 < bit_length n"
    using n by (subst bit_length.simps) simp
  have il: "ilog2 x = int (bit_length n - 1)"
    using True k by (simp add: ilog2_def n_def of_nat_diff)
  have il1: "ilog2 x + 1 = int (bit_length n)"
    using k by (simp add: il)
  have "(2::rat) ^ (bit_length n - 1) \<le> of_nat n"
    using lo by (metis of_nat_le_iff of_nat_numeral of_nat_power)
  with nx have "2 ^ (bit_length n - 1) \<le> x" by linarith
  then have a: "pow2 (ilog2 x) \<le> x"
    by (simp only: il pow2_int)
  from hi have "n + 1 \<le> 2 ^ bit_length n" by simp
  then have "rat_of_nat (n + 1) \<le> 2 ^ bit_length n"
    by (metis of_nat_le_iff of_nat_numeral of_nat_power)
  with xn have "x < 2 ^ bit_length n" by simp
  then have b: "x < pow2 (ilog2 x + 1)"
    by (simp only: il1 pow2_int)
  from a b show ?thesis ..
next
  case False
  define c where "c = \<lceil>1 / x\<rceil>"
  define n where "n = nat (c - 1)"
  have y: "1 < 1 / x" using assms False by simp
  then have c2: "2 \<le> c" unfolding c_def by linarith
  have yc: "1 / x \<le> of_int c" and cy: "of_int c - 1 < 1 / x"
    unfolding c_def by linarith+
  have n: "0 < n" and nc: "int n = c - 1"
    using c2 unfolding n_def by simp_all
  from bit_length_bounds[OF n]
  have lo: "2 ^ (bit_length n - 1) \<le> n" and hi: "n < 2 ^ bit_length n" by auto
  have k: "0 < bit_length n"
    using n by (subst bit_length.simps) simp
  have il: "ilog2 x = - int (bit_length n)"
    using False by (simp add: ilog2_def n_def c_def)
  have il1: "ilog2 x + 1 = - int (bit_length n - 1)"
    using k by (simp add: il of_nat_diff)
  from hi have "int n + 1 \<le> 2 ^ bit_length n"
    by (metis Suc_leI of_nat_Suc of_nat_le_iff of_nat_numeral of_nat_power add.commute
        plus_1_eq_Suc)
  then have "c \<le> 2 ^ bit_length n" using nc by simp
  then have "rat_of_int c \<le> 2 ^ bit_length n"
    by (metis of_int_le_iff of_int_numeral of_int_power)
  with yc have "1 / x \<le> 2 ^ bit_length n" by linarith
  then have a: "pow2 (ilog2 x) \<le> x"
    using assms by (simp add: il pow2_neg field_simps)
  from lo have "(2::int) ^ (bit_length n - 1) \<le> int n"
    by (metis of_nat_le_iff of_nat_numeral of_nat_power)
  then have "(2::int) ^ (bit_length n - 1) \<le> c - 1" using nc by simp
  then have "rat_of_int (2 ^ (bit_length n - 1)) \<le> of_int (c - 1)"
    by (simp only: of_int_le_iff)
  with cy have "2 ^ (bit_length n - 1) < 1 / x" by simp
  then have "x < 1 / 2 ^ (bit_length n - 1)"
    using assms by (simp add: field_simps)
  then have b: "x < pow2 (ilog2 x + 1)"
    by (simp only: il1 pow2_neg)
  from a b show ?thesis ..
qed

subsection \<open>The duration of a group\<close>

lemma same_date_diff:
  assumes "Date r1 = Date r2"
  shows "\<bar>DateTime r1 - DateTime r2\<bar> < 86400"
proof -
  have "DateTime r1 = 86400 * (DateTime r1 div 86400) + DateTime r1 mod 86400"
    and "DateTime r2 = 86400 * (DateTime r2 div 86400) + DateTime r2 mod 86400"
    by simp_all
  moreover have "0 \<le> DateTime r1 mod 86400" "DateTime r1 mod 86400 < 86400"
    "0 \<le> DateTime r2 mod 86400" "DateTime r2 mod 86400 < 86400"
    by simp_all
  ultimately show ?thesis
    using assms unfolding Date_def by linarith
qed

lemma exact_hours_seconds:
  assumes "events df n d ''DutyOn'' \<noteq> []" and "events df n d ''DutyOff'' \<noteq> []"
  shows "\<exists>s::int. \<bar>s\<bar> < 86400 \<and> exact_hours df n d = of_int s / 3600"
proof -
  let ?ons = "DateTime ` set (events df n d ''DutyOn'')"
  let ?offs = "DateTime ` set (events df n d ''DutyOff'')"
  have "Min ?ons \<in> ?ons"
    using assms(1) by (intro Min_in) auto
  then obtain r1 where r1: "r1 \<in> set (events df n d ''DutyOn'')" "DateTime r1 = Min ?ons"
    by auto
  have "Max ?offs \<in> ?offs"
    using assms(2) by (intro Max_in) auto
  then obtain r2 where r2: "r2 \<in> set (events df n d ''DutyOff'')" "DateTime r2 = Max ?offs"
    by auto
  from r1(1) r2(1) have "Date r2 = Date r1"
    by (simp add: events_def)
  from same_date_diff[OF this] r1(2) r2(2) have "\<bar>Max ?offs - Min ?ons\<bar> < 86400"
    by simp
  then show ?thesis
    unfolding exact_hours_def by blast
qed

lemma group_hours_near:
  assumes "events df n d ''DutyOn'' \<noteq> []" and "events df n d ''DutyOff'' \<noteq> []"
  shows "\<bar>py_round (to_double (exact_hours df n d)) 2 - exact_hours df n d\<bar> \<le> 1 / 200"
proof -
  from exact_hours_seconds[OF assms] obtain s :: int
    where s: "\<bar>s\<bar> < 86400" and eq: "exact_hours df n d = of_int s / 3600"
    by blast
  show ?thesis
    unfolding eq using s by (rule hours_rounding)
qed

lemma group_session_both:
  assumes "events df n d ''DutyOn'' \<noteq> []" and "events df n d ''DutyOff'' \<noteq> []"
  shows "group_session df n d =
     [\<lparr>wh_Name = n, wh_Date = d,
       Duty_On_Time = Min (DateTime ` set (events df n d ''DutyOn'')) mod 86400,
       Duty_Off_Time = Max (DateTime ` set (events df n d ''DutyOff'')) mod 86400,
       Work_Hours = py_round (to_double (exact_hours df n d)) 2\<rparr>]"
  using assms by (simp add: group_session_def exact_hours_def Let_def)

lemma group_session_one_side:
  assumes "events df n d ''DutyOn'' = [] \<or> events df n d ''DutyOff'' = []"
  shows "group_session df n d = []"
  using assms by (auto simp: group_session_def Let_def)

lemma in_work_hours_iff:
  "s \<in> set (work_hours df) \<longleftrightarrow> s \<in> set (group_session df (wh_Name s) (wh_Date s))"
proof -
  have "s \<in> set (work_hours df) \<longleftrightarrow>
      s \<in> set (filter (\<lambda>t. wh_Name t = wh_Name s \<and> wh_Date t = wh_Date s) (work_hours df))"
    by simp
  then show ?thesis by (simp only: filter_work_hours)
qed

lemma group_session_Work_Hours:
  "s \<in> set (group_session df n d) \<Longrightarrow>
     Work_Hours s = py_round (to_double (exact_hours df n d)) 2"
  by (auto simp: group_session_def exact_hours_def Let_def split: if_splits)

subsection \<open>The report depends on the groups only\<close>

lemma concat_map_nonempty:
  "concat (map f xs) = concat (map f (filter (\<lambda>x. f x \<noteq> []) xs))"
  by (induction xs) auto

lemma sort_unique_sorted_list: "sort (unique xs) = sorted_list_of_set (set xs)"
  by (intro sorted_distinct_set_unique) (simp_all add: unique_def)

lemma filter_sorted_list_of_set:
  "finite A \<Longrightarrow> filter P (sorted_list_of_set A) = sorted_list_of_set {x \<in> A. P x}"
  by (intro sorted_distinct_set_unique) (auto intro: sorted_wrt_filter)

lemma concat_map_support:
  assumes "\<And>x. f x \<noteq> [] \<Longrightarrow> x \<in> set xs"
  shows "concat (map f (sort (unique xs))) = concat (map f (sorted_list_of_set {x. f x \<noteq> []}))"
proof -
  have eq: "{x \<in> set xs. f x \<noteq> []} = {x. f x \<noteq> []}"
    using assms by auto
  have "concat (map f (sort (unique xs)))
      = concat (map f (filter (\<lambda>x. f x \<noteq> []) (sorted_list_of_set (set xs))))"
    unfolding sort_unique_sorted_list by (rule concat_map_nonempty)
  also have "\<dots> = concat (map f (sorted_list_of_set {x. f x \<noteq> []}))"
    by (simp only: filter_sorted_list_of_set[OF finite_set] eq)
  finally show ?thesis .
qed

lemma person_sessions_support:
  "person_sessions df n =
     concat (map (group_session df n) (sorted_list_of_set {d. group_session df n d \<noteq> []}))"
  unfolding person_sessions_groups
proof (rule concat_map_support)
  fix d assume "group_session df n d \<noteq> []"
  from group_session_nonempty(2)[OF this]
  show "d \<in> set (map Date (filter (\<lambda>r. Name r = n) df))" by auto
qed

lemma person_sessions_nonempty:
  assumes "person_sessions df n \<noteq> []"
  shows "n \<in> set (map Name df)"
proof -
  from assms obtain d where "group_session df n d \<noteq> []"
    unfolding person_sessions_groups by auto
  from group_session_nonempty(1)[OF this] show ?thesis by simp
qed

lemma work_hours_support:
  "work_hours df =
     concat (map (person_sessions df) (sorted_list_of_set {n. person_sessions df n \<noteq> []}))"
  unfolding work_hours_def
  by (rule concat_map_support) (rule person_sessions_nonempty)

lemma work_hours_cong:
  assumes "\<And>n d. group_session df n d = group_session df' n d"
  shows "work_hours df = work_hours df'"
proof -
  have "group_session df n = group_session df' n" for n
    by (intro ext) (rule assms)
  then have "person_sessions df n = person_sessions df' n" for n
    by (simp only: person_sessions_support)
  then have "person_sessions df = person_sessions df'"
    by (intro ext)
  then show ?thesis
    by (simp only: work_hours_support)
qed

lemma group_session_cong:
  assumes "set (events df n d ''DutyOn'') = set (events df' n d ''DutyOn'')"
    and "set (events df n d ''DutyOff'') = set (events df' n d ''DutyOff'')"
  shows "group_session df n d = group_session df' n d"
  by (simp only: group_session_def assms)

lemma work_hours_set_cong:
  assumes "set df = set df'"
  shows "work_hours df = work_hours df'"
proof (rule work_hours_cong)
  fix n d
  show "group_session df n d = group_session df' n d"
    by (rule group_session_cong) (simp_all add: events_def assms)
qed

lemma set_df_sorted: "set (df_sorted df) = set df"
  by (simp add: df_sorted_def)

lemma mset_df_sorted: "mset (df_sorted df) = mset df"
  by (simp add: df_sorted_def)

subsection \<open>Counting\<close>




lemma sum_list_indicator:
  "distinct ks \<Longrightarrow> a \<in> set ks \<Longrightarrow> sum_list (map (\<lambda>k. if a = k then c else 0) ks) = (c::nat)"
  by (induction ks) auto

lemma sum_list_zero: "sum_list (map (\<lambda>k. 0::nat) ks) = 0"
  by (induction ks) auto

lemma sum_by_key:
  assumes "distinct ks"
  shows "key ` set xs \<subseteq> set ks \<Longrightarrow>
     sum_list (map (\<lambda>k. length (filter P (filter (\<lambda>r. key r = k) xs))) ks)
       = length (filter P xs)"
proof (induction xs)
  case Nil
  then show ?case by (simp add: sum_list_zero)
next
  case (Cons x xs)
  have split: "length (filter P (filter (\<lambda>r. key r = k) (x # xs)))
      = (if key x = k then (if P x then 1 else 0) else 0)
        + length (filter P (filter (\<lambda>r. key r = k) xs))" for k
    by simp
  have mem: "key x \<in> set ks" and sub: "key ` set xs \<subseteq> set ks"
    using Cons.prems by auto
  show ?case
    by (simp only: split sum_list_addf sum_list_indicator[OF assms mem] Cons.IH[OF sub])
       simp
qed

lemma sum_by_sorted_keys:
  "sum_list (map (\<lambda>k. length (filter P (filter (\<lambda>r. key r = k) xs))) (sort (unique (map key xs))))
     = length (filter P xs)"
  by (rule sum_by_key[OF distinct_sort_unique]) (simp add: set_unique)

lemma length_filter_either:
  assumes "\<And>r. \<not> (P r \<and> Q r)"
  shows "length (filter (\<lambda>r. P r \<or> Q r) xs) = length (filter P xs) + length (filter Q xs)"
  using assms by (induction xs) auto

lemma recognized_rows:
  "length (filter (\<lambda>r. Status r = ''DutyOn'' \<or> Status r = ''DutyOff'') df)
     = length (filter (\<lambda>r. Status r = ''DutyOn'') df)
       + length (filter (\<lambda>r. Status r = ''DutyOff'') df)"
  by (rule length_filter_either) auto

lemma map_fillna0_groupby_size:
  "map_fillna0 (groupby_size key ys) k = length (filter (\<lambda>r. key r = k) ys)"
proof -
  have m: "map_of (map (\<lambda>k. (k, g k)) ks) k = (if k \<in> set ks then Some (g k) else None)"
    for g :: "'a \<Rightarrow> nat" and ks
    by (induction ks) auto
  have "k \<notin> key ` set ys \<Longrightarrow> filter (\<lambda>r. key r = k) ys = []"
    by (auto simp: filter_empty_conv)
  then show ?thesis
    by (auto simp: map_fillna0_def groupby_size_def m set_unique)
qed

lemma sum_Total_DutyOn:
  "sum_list (map Total_DutyOn (daily_summary df)) = length (filter (\<lambda>r. Status r = ''DutyOn'') df)"
  using sum_by_sorted_keys[of "\<lambda>r. Status r = ''DutyOn''" Date df]
  by (simp add: daily_summary_def Let_def comp_def)

lemma sum_Total_DutyOff:
  "sum_list (map Total_DutyOff (daily_summary df)) = length (filter (\<lambda>r. Status r = ''DutyOff'') df)"
  using sum_by_sorted_keys[of "\<lambda>r. Status r = ''DutyOff''" Date df]
  by (simp add: daily_summary_def Let_def comp_def)

lemma sum_dd_Duty_On_Count:
  "sum_list (map dd_Duty_On_Count (dash_daily_summary df))
     = length (filter (\<lambda>r. Status r = ''DutyOn'') df)"
  using sum_by_sorted_keys[of "\<lambda>r. Status r = ''DutyOn''" Date df]
  by (simp add: dash_daily_summary_def Let_def comp_def map_fillna0_groupby_size
        conj_commute)

lemma sum_dd_Duty_Off_Count:
  "sum_list (map dd_Duty_Off_Count (dash_daily_summary df))
     = length (filter (\<lambda>r. Status r = ''DutyOff'') df)"
  using sum_by_sorted_keys[of "\<lambda>r. Status r = ''DutyOff''" Date df]
  by (simp add: dash_daily_summary_def Let_def comp_def map_fillna0_groupby_size
        conj_commute)




subsection \<open>Rows with another status\<close>





lemma convert_rows_retains:
  "convert_rows parse raws = Inr df \<Longrightarrow>
     map Status df = map raw_Status raws \<and> map Name df = map raw_Name raws"
  by (induction raws arbitrary: df) (auto split: option.splits sum.splits)

lemma convert_DateTime_retains:
  "convert_DateTime to_datetime raws = Inr df \<Longrightarrow>
     map Status df = map raw_Status raws \<and> map Name df = map raw_Name raws"
  unfolding convert_DateTime_def by (rule convert_rows_retains)


subsection \<open>The dashboard schedule and the loader\<close>






lemma convert_rows_fails:
  "\<exists>r \<in> set raws. parse (raw_DateTime r) = None \<Longrightarrow>
     convert_rows parse raws = Inl DateParseError"
proof (induction raws)
  case Nil
  then show ?case by simp
next
  case (Cons a raws)
  show ?case
  proof (cases "parse (raw_DateTime a)")
    case None
    then show ?thesis by simp
  next
    case (Some t)
    with Cons.prems have "\<exists>r \<in> set raws. parse (raw_DateTime r) = None"
      by auto
    from Cons.IH[OF this] Some show ?thesis by simp
  qed
qed

lemma convert_rows_succeeds:
  "\<forall>r \<in> set raws. parse (raw_DateTime r) \<noteq> None \<Longrightarrow>
     \<exists>df. convert_rows parse raws = Inr df"
proof (induction raws)
  case Nil
  then show ?case by simp
next
  case (Cons a raws)
  then obtain t df where "parse (raw_DateTime a) = Some t"
    and "convert_rows parse raws = Inr df"
    by auto
  then show ?case by simp
qed

lemma convert_rows_outcome:
  "(\<exists>e. convert_rows parse raws = Inl e) \<longleftrightarrow> (\<exists>r \<in> set raws. parse (raw_DateTime r) = None)"
proof
  assume "\<exists>e. convert_rows parse raws = Inl e"
  then show "\<exists>r \<in> set raws. parse (raw_DateTime r) = None"
    using convert_rows_succeeds[of raws parse] by fastforce
next
  assume "\<exists>r \<in> set raws. parse (raw_DateTime r) = None"
  then show "\<exists>e. convert_rows parse raws = Inl e"
    using convert_rows_fails by blast
qed

section \<open>Claims\<close>

text \<open>
  C1, as the code has it. A \<open>(name, date)\<close> group with at least one \<^verbatim>\<open>DutyOn\<close> and at least
  one \<^verbatim>\<open>DutyOff\<close> event yields exactly one row of the work-hours report; its times of day
  are those of the earliest \<^verbatim>\<open>DutyOn\<close> and the latest \<^verbatim>\<open>DutyOff\<close> timestamp, and its
  \<^verbatim>\<open>Work_Hours\<close> is \<^verbatim>\<open>round(hours, 2)\<close> of the double \<^verbatim>\<open>hours\<close>, the latest \<^verbatim>\<open>DutyOff\<close> minus the
  earliest \<^verbatim>\<open>DutyOn\<close> timestamp divided by 3600: a value within 0.005 of that quotient. The
  two examples of the specification give 9.50 and 9.00 hours, the second from 08:00 and
  17:00.
\<close>

theorem one_session_per_complete_group:
  "(events df n d ''DutyOn'' \<noteq> [] \<and> events df n d ''DutyOff'' \<noteq> [] \<longrightarrow>
      (\<exists>s. filter (\<lambda>s. wh_Name s = n \<and> wh_Date s = d) (work_hours df) = [s]
         \<and> Duty_On_Time s = Min (DateTime ` set (events df n d ''DutyOn'')) mod 86400
         \<and> Duty_Off_Time s = Max (DateTime ` set (events df n d ''DutyOff'')) mod 86400
         \<and> Work_Hours s = py_round (to_double (exact_hours df n d)) 2
         \<and> \<bar>Work_Hours s - exact_hours df n d\<bar> \<le> 1 / 200))
   \<and> work_hours [event 1 ''Alice'' ''DutyOn'' (at_time 19723 8 0 0),
                 event 2 ''Alice'' ''DutyOff'' (at_time 19723 17 30 0)]
       = [\<lparr>wh_Name = ''Alice'', wh_Date = 19723, Duty_On_Time = 8 * 3600,
            Duty_Off_Time = 17 * 3600 + 30 * 60, Work_Hours = 950 / 100\<rparr>]
   \<and> work_hours [event 1 ''Alice'' ''DutyOn'' (at_time 19723 8 0 0),
                 event 2 ''Alice'' ''DutyOn'' (at_time 19723 8 5 0),
                 event 3 ''Alice'' ''DutyOff'' (at_time 19723 17 0 0)]
       = [\<lparr>wh_Name = ''Alice'', wh_Date = 19723, Duty_On_Time = 8 * 3600,
            Duty_Off_Time = 17 * 3600, Work_Hours = 900 / 100\<rparr>]"
proof (intro conjI impI)
  assume "events df n d ''DutyOn'' \<noteq> [] \<and> events df n d ''DutyOff'' \<noteq> []"
  then show "\<exists>s. filter (\<lambda>s. wh_Name s = n \<and> wh_Date s = d) (work_hours df) = [s]
         \<and> Duty_On_Time s = Min (DateTime ` set (events df n d ''DutyOn'')) mod 86400
         \<and> Duty_Off_Time s = Max (DateTime ` set (events df n d ''DutyOff'')) mod 86400
         \<and> Work_Hours s = py_round (to_double (exact_hours df n d)) 2
         \<and> \<bar>Work_Hours s - exact_hours df n d\<bar> \<le> 1 / 200"
    using group_hours_near[of df n d] by (simp add: filter_work_hours group_session_both)
next
  show "work_hours [event 1 ''Alice'' ''DutyOn'' (at_time 19723 8 0 0),
                 event 2 ''Alice'' ''DutyOff'' (at_time 19723 17 30 0)]
       = [\<lparr>wh_Name = ''Alice'', wh_Date = 19723, Duty_On_Time = 8 * 3600,
            Duty_Off_Time = 17 * 3600 + 30 * 60, Work_Hours = 950 / 100\<rparr>]"
    by (simp add: work_hours_def person_sessions_def date_sessions_def unique_def Date_def
          Time_def Let_def event_def at_time_def)
       (simp add: eval_double)
next
  show "work_hours [event 1 ''Alice'' ''DutyOn'' (at_time 19723 8 0 0),
                 event 2 ''Alice'' ''DutyOn'' (at_time 19723 8 5 0),
                 event 3 ''Alice'' ''DutyOff'' (at_time 19723 17 0 0)]
       = [\<lparr>wh_Name = ''Alice'', wh_Date = 19723, Duty_On_Time = 8 * 3600,
            Duty_Off_Time = 17 * 3600, Work_Hours = 900 / 100\<rparr>]"
    by (simp add: work_hours_def person_sessions_def date_sessions_def unique_def Date_def
          Time_def Let_def event_def at_time_def)
       (simp add: eval_double)
qed

text \<open>
  The theorem at a group whose exact duration lies half-way between two multiples of
  0.01: 08:00:00 to 08:00:18 is 0.005 hours, the double nearest to 0.005 is above it, and
  the row holds 0.01.
\<close>

theorem one_session_per_complete_group_witness:
  "\<exists>s. filter (\<lambda>s. wh_Name s = ''Alice'' \<and> wh_Date s = 19723)
         (work_hours [event 1 ''Alice'' ''DutyOn'' (at_time 19723 8 0 0),
                      event 2 ''Alice'' ''DutyOff'' (at_time 19723 8 0 18)]) = [s]
       \<and> Duty_On_Time s = 8 * 3600 \<and> Duty_Off_Time s = 8 * 3600 + 18
       \<and> Work_Hours s = 1 / 100 \<and> \<bar>Work_Hours s - 1 / 200\<bar> \<le> 1 / 200"
  using one_session_per_complete_group
    [of "[event 1 ''Alice'' ''DutyOn'' (at_time 19723 8 0 0),
          event 2 ''Alice'' ''DutyOff'' (at_time 19723 8 0 18)]" "''Alice''" 19723]
  by (simp add: events_def exact_hours_def Date_def event_def at_time_def)
     (simp add: eval_double)

text \<open>
  C1 as the specification states it fails at 08:00:00 to 16:20:00: the row's
  \<^verbatim>\<open>Work_Hours\<close> is 8.33 and not the difference divided by 3600 (25/3), the code having
  rounded it.
\<close>

theorem unrounded_duration_counterexample:
  "\<not> (\<exists>s. filter (\<lambda>s. wh_Name s = ''Alice'' \<and> wh_Date s = 19723)
         (work_hours [event 1 ''Alice'' ''DutyOn'' (at_time 19723 8 0 0),
                      event 2 ''Alice'' ''DutyOff'' (at_time 19723 16 20 0)]) = [s]
       \<and> Work_Hours s =
           exact_hours [event 1 ''Alice'' ''DutyOn'' (at_time 19723 8 0 0),
                        event 2 ''Alice'' ''DutyOff'' (at_time 19723 16 20 0)] ''Alice'' 19723)"
  by (simp add: work_hours_def person_sessions_def date_sessions_def unique_def Date_def
        Time_def Let_def event_def at_time_def events_def exact_hours_def)
     (simp add: eval_double)

text \<open>
  C2, as the code has it. The \<^verbatim>\<open>Work_Hours\<close> of every row of the work-hours report is
  \<^verbatim>\<open>round(hours, 2)\<close> of the double \<^verbatim>\<open>hours\<close> of its group: a multiple of 0.01 that differs
  from the exact duration by at most 0.005 (rounded to the nearest, not cut off).
\<close>

theorem work_hours_rounded_to_nearest:
  "s \<in> set (work_hours df) \<Longrightarrow>
     Work_Hours s = py_round (to_double (exact_hours df (wh_Name s) (wh_Date s))) 2
     \<and> \<bar>Work_Hours s - exact_hours df (wh_Name s) (wh_Date s)\<bar> \<le> 1 / 200
     \<and> (\<exists>k::int. Work_Hours s = of_int k / 100)"
proof -
  assume "s \<in> set (work_hours df)"
  then have mem: "s \<in> set (group_session df (wh_Name s) (wh_Date s))"
    by (simp only: in_work_hours_iff)
  then have wh: "Work_Hours s = py_round (to_double (exact_hours df (wh_Name s) (wh_Date s))) 2"
    by (rule group_session_Work_Hours)
  from mem have "events df (wh_Name s) (wh_Date s) ''DutyOn'' \<noteq> []"
    and "events df (wh_Name s) (wh_Date s) ''DutyOff'' \<noteq> []"
    using group_session_one_side[of df "wh_Name s" "wh_Date s"] by auto
  then have near:
    "\<bar>py_round (to_double (exact_hours df (wh_Name s) (wh_Date s))) 2
       - exact_hours df (wh_Name s) (wh_Date s)\<bar> \<le> 1 / 200"
    by (rule group_hours_near)
  have "\<exists>k::int. py_round (to_double (exact_hours df (wh_Name s) (wh_Date s))) 2 = of_int k / 100"
    unfolding py_round_def by auto
  with wh near show ?thesis
    by simp
qed

text \<open>
  The theorem at 08:00:00 to 16:00:18, which is 8.005 hours: the double nearest to 8.005
  is above it, and the row holds 8.01.
\<close>

theorem work_hours_rounded_to_nearest_witness:
  "\<lparr>wh_Name = ''Bob'', wh_Date = 19723, Duty_On_Time = 8 * 3600,
     Duty_Off_Time = 16 * 3600 + 18, Work_Hours = 801 / 100\<rparr>
     \<in> set (work_hours [event 3 ''Bob'' ''DutyOn'' (at_time 19723 8 0 0),
                        event 4 ''Bob'' ''DutyOff'' (at_time 19723 16 0 18)])
   \<and> py_round (to_double (exact_hours [event 3 ''Bob'' ''DutyOn'' (at_time 19723 8 0 0),
                                       event 4 ''Bob'' ''DutyOff'' (at_time 19723 16 0 18)]
                            ''Bob'' 19723)) 2 = 801 / 100
   \<and> \<bar>801 / 100 - exact_hours [event 3 ''Bob'' ''DutyOn'' (at_time 19723 8 0 0),
                               event 4 ''Bob'' ''DutyOff'' (at_time 19723 16 0 18)]
                    ''Bob'' 19723\<bar> \<le> 1 / 200"
proof -
  have mem: "\<lparr>wh_Name = ''Bob'', wh_Date = 19723, Duty_On_Time = 8 * 3600,
     Duty_Off_Time = 16 * 3600 + 18, Work_Hours = 801 / 100\<rparr>
     \<in> set (work_hours [event 3 ''Bob'' ''DutyOn'' (at_time 19723 8 0 0),
                        event 4 ''Bob'' ''DutyOff'' (at_time 19723 16 0 18)])"
    by (simp add: work_hours_def person_sessions_def date_sessions_def unique_def Date_def
          Time_def Let_def event_def at_time_def)
       (simp add: eval_double)
  from work_hours_rounded_to_nearest[OF mem] mem show ?thesis
    by simp
qed

text \<open>
  C2 as the specification states it fails at 08:00:00 to 17:35:50: cutting 9.5972... off
  after two decimals gives 9.59, and the report holds 9.60.
\<close>

theorem truncated_duration_counterexample:
  "\<not> (\<forall>s \<in> set (work_hours [event 3 ''Bob'' ''DutyOn'' (at_time 19723 8 0 0),
                                  event 4 ''Bob'' ''DutyOff'' (at_time 19723 17 35 50)]).
        Work_Hours s =
          truncated_2dp (exact_hours [event 3 ''Bob'' ''DutyOn'' (at_time 19723 8 0 0),
                                      event 4 ''Bob'' ''DutyOff'' (at_time 19723 17 35 50)]
                           (wh_Name s) (wh_Date s)))"
  by (simp add: work_hours_def person_sessions_def date_sessions_def unique_def Date_def
        Time_def Let_def event_def at_time_def events_def exact_hours_def truncated_2dp_def)
     (simp add: eval_double)



text \<open>
  C4, as the code has it. In the daily summary of \<^verbatim>\<open>create_csv_reports\<close> and in the daily
  summary of the dashboard, the \<^verbatim>\<open>DutyOn\<close> counts plus the \<^verbatim>\<open>DutyOff\<close> counts, summed over
  all dates, are the number of input rows whose status is \<^verbatim>\<open>DutyOn\<close> or \<^verbatim>\<open>DutyOff\<close>; this
  is the total number of rows when every row has one of the two statuses.
\<close>

theorem status_counts_sum:
  "sum_list (map (\<lambda>e. Total_DutyOn e + Total_DutyOff e) (daily_summary df))
     = length (filter (\<lambda>r. Status r = ''DutyOn'' \<or> Status r = ''DutyOff'') df)
   \<and> sum_list (map (\<lambda>e. dd_Duty_On_Count e + dd_Duty_Off_Count e) (dash_daily_summary df))
     = length (filter (\<lambda>r. Status r = ''DutyOn'' \<or> Status r = ''DutyOff'') df)
   \<and> ((\<forall>r \<in> set df. Status r = ''DutyOn'' \<or> Status r = ''DutyOff'') \<longrightarrow>
        sum_list (map (\<lambda>e. Total_DutyOn e + Total_DutyOff e) (daily_summary df)) = length df
        \<and> sum_list (map (\<lambda>e. dd_Duty_On_Count e + dd_Duty_Off_Count e) (dash_daily_summary df))
            = length df)"
proof -
  have a: "sum_list (map (\<lambda>e. Total_DutyOn e + Total_DutyOff e) (daily_summary df))
     = length (filter (\<lambda>r. Status r = ''DutyOn'' \<or> Status r = ''DutyOff'') df)"
    by (simp only: sum_list_addf sum_Total_DutyOn sum_Total_DutyOff recognized_rows)
  have b: "sum_list (map (\<lambda>e. dd_Duty_On_Count e + dd_Duty_Off_Count e) (dash_daily_summary df))
     = length (filter (\<lambda>r. Status r = ''DutyOn'' \<or> Status r = ''DutyOff'') df)"
    by (simp only: sum_list_addf sum_dd_Duty_On_Count sum_dd_Duty_Off_Count recognized_rows)
  have c: "(\<forall>r \<in> set df. Status r = ''DutyOn'' \<or> Status r = ''DutyOff'') \<Longrightarrow>
      filter (\<lambda>r. Status r = ''DutyOn'' \<or> Status r = ''DutyOff'') df = df"
    by (rule filter_True) blast
  show ?thesis
    using a b c by simp
qed

text \<open>The theorem at two rows of Alice, one of each status: the counts sum to 2.\<close>

theorem status_counts_sum_witness:
  "sum_list (map (\<lambda>e. Total_DutyOn e + Total_DutyOff e)
       (daily_summary [event 1 ''Alice'' ''DutyOn'' (at_time 19723 8 0 0),
                       event 2 ''Alice'' ''DutyOff'' (at_time 19723 17 30 0)])) = 2
   \<and> sum_list (map (\<lambda>e. dd_Duty_On_Count e + dd_Duty_Off_Count e)
       (dash_daily_summary [event 1 ''Alice'' ''DutyOn'' (at_time 19723 8 0 0),
                            event 2 ''Alice'' ''DutyOff'' (at_time 19723 17 30 0)])) = 2"
  using status_counts_sum
    [of "[event 1 ''Alice'' ''DutyOn'' (at_time 19723 8 0 0),
          event 2 ''Alice'' ''DutyOff'' (at_time 19723 17 30 0)]"]
  by (simp add: event_def)

text \<open>
  C4 as the specification states it fails on a row with another status: one row, and
  per-status counts that sum to 0.
\<close>

theorem status_counts_sum_counterexample:
  "sum_list (map (\<lambda>e. Total_DutyOn e + Total_DutyOff e)
       (daily_summary [event 5 ''Carl'' ''Break'' (at_time 19724 12 0 0)]))
     \<noteq> length [event 5 ''Carl'' ''Break'' (at_time 19724 12 0 0)]"
  by (simp add: daily_summary_def unique_def Let_def event_def)

text \<open>
  C5, as the code has it. When pandas does not accept the timestamp of some row, the
  conversion raises: the exception leaves \<^verbatim>\<open>analyze_duty_schedule\<close>, and \<^verbatim>\<open>load_data\<close> of
  \<^verbatim>\<open>employee_lookup.py\<close> catches it, shows it and returns \<open>None\<close>. The status is not
  examined: a loaded row keeps the status it had in the file, whatever it is, and
  whether the loading fails depends on the timestamp column alone.
\<close>

theorem loader_rejects_timestamps_only:
  "((\<exists>r \<in> set raws. to_datetime (map raw_DateTime raws) (raw_DateTime r) = None) \<longrightarrow>
       analyze_duty_schedule_load to_datetime raws = Inl DateParseError)
   \<and> ((\<exists>r \<in> set (concat (map snd (sort_key fst glob))).
          to_datetime (map raw_DateTime (concat (map snd (sort_key fst glob)))) (raw_DateTime r)
            = None) \<longrightarrow>
       load_csv_files to_datetime glob = Inl DateParseError
       \<and> load_data to_datetime glob = Inr (None, [DateParseError]))
   \<and> (analyze_duty_schedule_load to_datetime raws = Inr df \<longrightarrow>
          map Status df = map raw_Status raws)
   \<and> (map raw_DateTime raws' = map raw_DateTime raws \<longrightarrow>
       ((\<exists>e. analyze_duty_schedule_load to_datetime raws' = Inl e)
          \<longleftrightarrow> (\<exists>e. analyze_duty_schedule_load to_datetime raws = Inl e)))"
proof (intro conjI impI)
  assume "\<exists>r \<in> set raws. to_datetime (map raw_DateTime raws) (raw_DateTime r) = None"
  then show "analyze_duty_schedule_load to_datetime raws = Inl DateParseError"
    unfolding analyze_duty_schedule_load_def convert_DateTime_def by (rule convert_rows_fails)
next
  let ?rows = "concat (map snd (sort_key fst glob))"
  assume bad: "\<exists>r \<in> set ?rows. to_datetime (map raw_DateTime ?rows) (raw_DateTime r) = None"
  then have ne: "sort_key fst glob \<noteq> []"
    by (cases "sort_key fst glob = []") simp_all
  from bad have "convert_DateTime to_datetime ?rows = Inl DateParseError"
    unfolding convert_DateTime_def by (rule convert_rows_fails)
  with ne show l: "load_csv_files to_datetime glob = Inl DateParseError"
    by (simp add: load_csv_files_def Let_def)
  then show "load_data to_datetime glob = Inr (None, [DateParseError])"
    by (simp add: load_data_def)
next
  assume "analyze_duty_schedule_load to_datetime raws = Inr df"
  then show "map Status df = map raw_Status raws"
    unfolding analyze_duty_schedule_load_def using convert_DateTime_retains by blast
next
  assume col: "map raw_DateTime raws' = map raw_DateTime raws"
  have cells: "(\<exists>r \<in> set rs. parse (raw_DateTime r) = None)
      \<longleftrightarrow> (\<exists>c \<in> set (map raw_DateTime rs). parse c = None)" for rs parse
    by auto
  show "(\<exists>e. analyze_duty_schedule_load to_datetime raws' = Inl e)
          \<longleftrightarrow> (\<exists>e. analyze_duty_schedule_load to_datetime raws = Inl e)"
    unfolding analyze_duty_schedule_load_def convert_DateTime_def convert_rows_outcome cells col
    by (rule refl)
qed

text \<open>
  The theorem for a parser that accepts one string: a row with another timestamp string
  makes the loading of \<^verbatim>\<open>analyze_duty_schedule\<close> fail, and a row with the accepted string
  and the status \<^verbatim>\<open>Break\<close> is loaded with that status.
\<close>

theorem loader_rejects_timestamps_only_witness:
  "analyze_duty_schedule_load
      (\<lambda>column cell. if cell = ''2024-01-01 12:00:00'' then Some (at_time 19723 12 0 0) else None)
      [\<lparr>raw_ID = 1, raw_Name = ''Alice'', raw_Status = ''DutyOn'',
        raw_DateTime = ''not a timestamp''\<rparr>]
     = Inl DateParseError
   \<and> analyze_duty_schedule_load
        (\<lambda>column cell. if cell = ''2024-01-01 12:00:00'' then Some (at_time 19723 12 0 0) else None)
        [\<lparr>raw_ID = 5, raw_Name = ''Carl'', raw_Status = ''Break'',
          raw_DateTime = ''2024-01-01 12:00:00''\<rparr>]
     = Inr [event 5 ''Carl'' ''Break'' (at_time 19723 12 0 0)]
   \<and> map Status [event 5 ''Carl'' ''Break'' (at_time 19723 12 0 0)] = [''Break'']"
proof -
  let ?p = "\<lambda>column cell. if cell = ''2024-01-01 12:00:00'' then Some (at_time 19723 12 0 0)
             else None"
  have a: "analyze_duty_schedule_load ?p
      [\<lparr>raw_ID = 1, raw_Name = ''Alice'', raw_Status = ''DutyOn'',
        raw_DateTime = ''not a timestamp''\<rparr>]
     = Inl DateParseError"
    using loader_rejects_timestamps_only
      [of "[\<lparr>raw_ID = 1, raw_Name = ''Alice'', raw_Status = ''DutyOn'',
             raw_DateTime = ''not a timestamp''\<rparr>]" ?p "[]" "[]" "[]"]
    by simp
  have l: "analyze_duty_schedule_load ?p
        [\<lparr>raw_ID = 5, raw_Name = ''Carl'', raw_Status = ''Break'',
          raw_DateTime = ''2024-01-01 12:00:00''\<rparr>]
     = Inr [event 5 ''Carl'' ''Break'' (at_time 19723 12 0 0)]"
    by (simp add: analyze_duty_schedule_load_def convert_DateTime_def event_def)
  have b: "map Status [event 5 ''Carl'' ''Break'' (at_time 19723 12 0 0)] = [''Break'']"
    using loader_rejects_timestamps_only
      [of "[\<lparr>raw_ID = 5, raw_Name = ''Carl'', raw_Status = ''Break'',
          raw_DateTime = ''2024-01-01 12:00:00''\<rparr>]" ?p "[]"
          "[event 5 ''Carl'' ''Break'' (at_time 19723 12 0 0)]" "[]"] l
    by simp
  from a l b show ?thesis by simp
qed

text \<open>
  C5 as the specification states it fails on that row: its status is not one of the two
  recognized values and the loading does not fail.
\<close>

theorem unrecognized_status_loads_counterexample:
  "\<not> (\<exists>e. analyze_duty_schedule_load
        (\<lambda>column cell. if cell = ''2024-01-01 12:00:00'' then Some (at_time 19723 12 0 0) else None)
        [\<lparr>raw_ID = 5, raw_Name = ''Carl'', raw_Status = ''Break'',
          raw_DateTime = ''2024-01-01 12:00:00''\<rparr>] = Inl e)"
  by (simp add: analyze_duty_schedule_load_def convert_DateTime_def)

text \<open>
  C6, as the code has it. When no input file matches, the loading code of
  \<^verbatim>\<open>create_html_dashboard\<close> raises \<^verbatim>\<open>FileNotFoundError\<close> to its caller, and \<^verbatim>\<open>load_data\<close> of
  \<^verbatim>\<open>employee_lookup.py\<close> catches that exception, shows it and returns \<open>None\<close>. Neither
  produces a data frame.
\<close>

theorem no_input_file:
  "load_csv_files to_datetime [] = Inl FileNotFoundError
   \<and> load_data to_datetime [] = Inr (None, [FileNotFoundError])"
  by (simp add: load_csv_files_def load_data_def)

text \<open>
  C6 as the specification states it fails for \<^verbatim>\<open>load_data\<close>: no exception reaches its
  caller.
\<close>

theorem not_found_not_propagated_counterexample:
  "load_data (\<lambda>column cell. None) [] \<noteq> Inl FileNotFoundError"
  by (simp add: load_csv_files_def load_data_def)

text \<open>
  C7 does not hold of the dashboard. With one \<^verbatim>\<open>DutyOn\<close> row loaded and the status filter
  set to \<^verbatim>\<open>DutyOff\<close> the filtered frame has no rows, and \<^verbatim>\<open>main\<close> raises \<^verbatim>\<open>AttributeError\<close> at
  line 155, among the key metrics and before any table is computed; the same holds for
  every choice of filters that leaves no row. The aggregations of \<^verbatim>\<open>create_csv_reports\<close>
  do what the claim says: on a frame without rows they give three empty tables and no
  work-hours file.
\<close>

theorem zero_rows_dashboard_fails:
  "apply_filters [event 1 ''Alice'' ''DutyOn'' (at_time 19723 8 0 0)]
       [19723, 19723] [''All''] ''DutyOff'' = []
   \<and> dashboard_main [event 1 ''Alice'' ''DutyOn'' (at_time 19723 8 0 0)]
       [19723, 19723] [''All''] ''DutyOff'' = Inl AttributeError
   \<and> (\<exists>out. dashboard_main [event 1 ''Alice'' ''DutyOn'' (at_time 19723 8 0 0)]
       [19723, 19723] [''All''] ''All'' = Inr out)
   \<and> date_range_days [] = Inl AttributeError
   \<and> create_csv_reports []
       = \<lparr>duty_schedule_by_person = [], duty_schedule_by_date = [], daily_duty_summary = [],
          employee_work_hours = None\<rparr>"
proof -
  have f: "apply_filters [event 1 ''Alice'' ''DutyOn'' (at_time 19723 8 0 0)]
       [19723, 19723] [''All''] ''DutyOff'' = []"
    by (simp add: apply_filters_def event_def)
  have g: "apply_filters [event 1 ''Alice'' ''DutyOn'' (at_time 19723 8 0 0)]
       [19723, 19723] [''All''] ''All'' = [event 1 ''Alice'' ''DutyOn'' (at_time 19723 8 0 0)]"
    by (simp add: apply_filters_def event_def Date_def at_time_def)
  have m: "dashboard_main [event 1 ''Alice'' ''DutyOn'' (at_time 19723 8 0 0)]
       [19723, 19723] [''All''] ''DutyOff'' = Inl AttributeError"
    by (simp add: dashboard_main_def f date_range_days_def)
  have ok: "\<exists>out. dashboard_main [event 1 ''Alice'' ''DutyOn'' (at_time 19723 8 0 0)]
       [19723, 19723] [''All''] ''All'' = Inr out"
    by (simp add: dashboard_main_def g date_range_days_def Let_def)
  have u: "unique ([]::'a list) = []"
    by (simp add: unique_def)
  have r: "create_csv_reports []
       = \<lparr>duty_schedule_by_person = [], duty_schedule_by_date = [], daily_duty_summary = [],
          employee_work_hours = None\<rparr>"
    by (simp add: create_csv_reports_def person_schedule_def date_schedule_def
          daily_summary_def work_hours_def u)
  from f m ok r show ?thesis
    by (simp add: date_range_days_def)
qed

text \<open>
  C8. There is an input where both statuses are present in a group and the latest
  \<^verbatim>\<open>DutyOff\<close> precedes the earliest \<^verbatim>\<open>DutyOn\<close> (off at 08:00, on at 17:00): its row is
  emitted with \<^verbatim>\<open>Work_Hours\<close> -9. In general no order of the two timestamps suppresses the
  row: whenever the latest \<^verbatim>\<open>DutyOff\<close> is before the earliest \<^verbatim>\<open>DutyOn\<close> the row is emitted
  all the same, with a \<^verbatim>\<open>Work_Hours\<close> that is not positive.
\<close>

theorem negative_duration_emitted:
  "(\<exists>df n d. events df n d ''DutyOn'' \<noteq> [] \<and> events df n d ''DutyOff'' \<noteq> []
       \<and> Max (DateTime ` set (events df n d ''DutyOff''))
           < Min (DateTime ` set (events df n d ''DutyOn''))
       \<and> (\<exists>s. filter (\<lambda>s. wh_Name s = n \<and> wh_Date s = d) (work_hours df) = [s]
              \<and> Work_Hours s < 0))
   \<and> work_hours [event 1 ''Alice'' ''DutyOff'' (at_time 19723 8 0 0),
                 event 2 ''Alice'' ''DutyOn'' (at_time 19723 17 0 0)]
       = [\<lparr>wh_Name = ''Alice'', wh_Date = 19723, Duty_On_Time = 17 * 3600,
            Duty_Off_Time = 8 * 3600, Work_Hours = - 9\<rparr>]
   \<and> (events df n d ''DutyOn'' \<noteq> [] \<and> events df n d ''DutyOff'' \<noteq> []
       \<and> Max (DateTime ` set (events df n d ''DutyOff''))
           < Min (DateTime ` set (events df n d ''DutyOn''))
      \<longrightarrow> (\<exists>s. filter (\<lambda>s. wh_Name s = n \<and> wh_Date s = d) (work_hours df) = [s]
              \<and> Work_Hours s = py_round (to_double (exact_hours df n d)) 2
              \<and> Work_Hours s \<le> 0))"
proof (intro conjI impI)
  let ?df = "[event 1 ''Alice'' ''DutyOff'' (at_time 19723 8 0 0),
              event 2 ''Alice'' ''DutyOn'' (at_time 19723 17 0 0)]"
  show eval: "work_hours ?df
       = [\<lparr>wh_Name = ''Alice'', wh_Date = 19723, Duty_On_Time = 17 * 3600,
            Duty_Off_Time = 8 * 3600, Work_Hours = - 9\<rparr>]"
    by (simp add: work_hours_def person_sessions_def date_sessions_def unique_def Date_def
          Time_def Let_def event_def at_time_def)
       (simp add: eval_double)
  have "events ?df ''Alice'' 19723 ''DutyOn'' \<noteq> [] \<and> events ?df ''Alice'' 19723 ''DutyOff'' \<noteq> []
       \<and> Max (DateTime ` set (events ?df ''Alice'' 19723 ''DutyOff''))
           < Min (DateTime ` set (events ?df ''Alice'' 19723 ''DutyOn''))
       \<and> (\<exists>s. filter (\<lambda>s. wh_Name s = ''Alice'' \<and> wh_Date s = 19723) (work_hours ?df) = [s]
              \<and> Work_Hours s < 0)"
    unfolding eval by (simp add: events_def Date_def event_def at_time_def)
  then show "\<exists>df n d. events df n d ''DutyOn'' \<noteq> [] \<and> events df n d ''DutyOff'' \<noteq> []
       \<and> Max (DateTime ` set (events df n d ''DutyOff''))
           < Min (DateTime ` set (events df n d ''DutyOn''))
       \<and> (\<exists>s. filter (\<lambda>s. wh_Name s = n \<and> wh_Date s = d) (work_hours df) = [s]
              \<and> Work_Hours s < 0)"
    by blast
next
  assume a: "events df n d ''DutyOn'' \<noteq> [] \<and> events df n d ''DutyOff'' \<noteq> []
       \<and> Max (DateTime ` set (events df n d ''DutyOff''))
           < Min (DateTime ` set (events df n d ''DutyOn''))"
  then have "exact_hours df n d < 0"
    by (simp add: exact_hours_def divide_neg_pos)
  then have "py_round (to_double (exact_hours df n d)) 2 \<le> 0"
    by (rule py_round_to_double_nonpos)
  with a show "\<exists>s. filter (\<lambda>s. wh_Name s = n \<and> wh_Date s = d) (work_hours df) = [s]
              \<and> Work_Hours s = py_round (to_double (exact_hours df n d)) 2
              \<and> Work_Hours s \<le> 0"
    by (simp add: filter_work_hours group_session_both)
qed

text \<open>The theorem at the input with off at 08:00 and on at 17:00.\<close>

theorem negative_duration_emitted_witness:
  "\<exists>s. filter (\<lambda>s. wh_Name s = ''Alice'' \<and> wh_Date s = 19723)
         (work_hours [event 1 ''Alice'' ''DutyOff'' (at_time 19723 8 0 0),
                      event 2 ''Alice'' ''DutyOn'' (at_time 19723 17 0 0)]) = [s]
       \<and> Work_Hours s = - 9 \<and> Work_Hours s \<le> 0"
  using negative_duration_emitted
    [of "[event 1 ''Alice'' ''DutyOff'' (at_time 19723 8 0 0),
          event 2 ''Alice'' ''DutyOn'' (at_time 19723 17 0 0)]" "''Alice''" 19723]
  by (simp add: events_def exact_hours_def Date_def event_def at_time_def)




text \<open>
  C10. Two inputs that are permutations of each other give the same work-hours report,
  row for row, whether the report is run on the frame as it is or, as
  \<^verbatim>\<open>analyze_duty_schedule\<close> does, on the frame sorted by name, date and timestamp; the
  sorting itself changes nothing. Every row is the row of its group, built from the
  minimum \<^verbatim>\<open>DutyOn\<close> and the maximum \<^verbatim>\<open>DutyOff\<close> timestamp of the group.
\<close>

theorem work_hours_permutation_invariant:
  "mset df = mset df' \<Longrightarrow>
     work_hours df = work_hours df'
     \<and> work_hours (df_sorted df) = work_hours (df_sorted df')
     \<and> work_hours (df_sorted df) = work_hours df
     \<and> set (work_hours df) = {s. s \<in> set (group_session df (wh_Name s) (wh_Date s))}"
proof -
  assume "mset df = mset df'"
  then have s: "set df = set df'"
    by (rule mset_eq_setD)
  have "work_hours df = work_hours df'"
    using s by (rule work_hours_set_cong)
  moreover have "work_hours (df_sorted df) = work_hours (df_sorted df')"
    by (rule work_hours_set_cong) (simp add: set_df_sorted s)
  moreover have "work_hours (df_sorted df) = work_hours df"
    by (rule work_hours_set_cong) (rule set_df_sorted)
  moreover have "set (work_hours df) = {s. s \<in> set (group_session df (wh_Name s) (wh_Date s))}"
    using in_work_hours_iff[of _ df] by blast
  ultimately show ?thesis by simp
qed

text \<open>The theorem at four rows of two employees and the same rows in another order.\<close>

theorem work_hours_permutation_invariant_witness:
  "work_hours [event 4 ''Bob'' ''DutyOff'' (at_time 19723 17 35 50),
               event 1 ''Alice'' ''DutyOn'' (at_time 19723 8 0 0),
               event 3 ''Bob'' ''DutyOn'' (at_time 19723 8 0 0),
               event 2 ''Alice'' ''DutyOff'' (at_time 19723 17 30 0)]
   = work_hours [event 1 ''Alice'' ''DutyOn'' (at_time 19723 8 0 0),
                 event 2 ''Alice'' ''DutyOff'' (at_time 19723 17 30 0),
                 event 3 ''Bob'' ''DutyOn'' (at_time 19723 8 0 0),
                 event 4 ''Bob'' ''DutyOff'' (at_time 19723 17 35 50)]"
proof -
  have "mset [event 4 ''Bob'' ''DutyOff'' (at_time 19723 17 35 50),
               event 1 ''Alice'' ''DutyOn'' (at_time 19723 8 0 0),
               event 3 ''Bob'' ''DutyOn'' (at_time 19723 8 0 0),
               event 2 ''Alice'' ''DutyOff'' (at_time 19723 17 30 0)]
      = mset [event 1 ''Alice'' ''DutyOn'' (at_time 19723 8 0 0),
                 event 2 ''Alice'' ''DutyOff'' (at_time 19723 17 30 0),
                 event 3 ''Bob'' ''DutyOn'' (at_time 19723 8 0 0),
                 event 4 ''Bob'' ''DutyOff'' (at_time 19723 17 35 50)]"
    by (simp add: add_ac)
  from work_hours_permutation_invariant[OF this] show ?thesis
    by (rule conjunct1)
qed

end
